theory Spec2Isabelle
  imports Main "HOL-Library.Sublist" "HOL-Library.Word"
begin

unbundle bit_operations_syntax

section \<open>JavaScript values and \<open>JSON.stringify\<close>\<close>

text \<open>
  A JavaScript object is an ordered collection of properties. A model configuration is kept
  as the list of its properties in the order they were created (the order of an object
  literal, keys pairwise distinct), not as a record, so that two objects with the same
  properties written in a different order are different values. Strings are byte strings
  (UTF-8). Numbers are the integers from \<open>-2^53\<close> to \<open>2^53 - 1\<close>, as a 54-bit signed word:
  these are exact as JavaScript numbers and JavaScript prints them in plain decimal. Other
  numbers (fractions, integers that print in exponent form, \<open>NaN\<close>, the infinities) are
  outside the model.
\<close>

datatype json =
    JUndefined
  | JNull
  | JBool bool
  | JNum "54 word"
  | JStr string
  | JArr "json list"
  | JObj "(string \<times> json) list"

type_synonym ModelConfig = "(string \<times> json) list"

text \<open>Reading a string-valued property: \<open>cfg.baseUrl\<close>, \<open>cfg.envKey\<close>, \<open>cfg.id\<close>.
  \<open>None\<close> is JavaScript's \<open>undefined\<close>.\<close>

definition str_prop :: "string \<Rightarrow> ModelConfig \<Rightarrow> string option" where
  "str_prop k cfg = (case map_of cfg k of Some (JStr s) \<Rightarrow> Some s | _ \<Rightarrow> None)"

definition hex_digit :: "int \<Rightarrow> char" where
  "hex_digit d = ''0123456789abcdef'' ! nat d"

function show_nat :: "int \<Rightarrow> string" where
  "show_nat n = (if n < 10 then [hex_digit n] else show_nat (n div 10) @ [hex_digit (n mod 10)])"
  by pat_completeness auto
termination
  by (relation "measure nat") auto

definition show_int :: "int \<Rightarrow> string" where
  "show_int n = (if n < 0 then CHR ''-'' # show_nat (- n) else show_nat n)"

text \<open>\<open>QuoteJSONString\<close>: the double quote, the backslash and the control characters are
  escaped; every other byte is copied.\<close>

definition quote_char :: "char \<Rightarrow> string" where
  "quote_char c =
     (if c = CHR 0x22 then [CHR 0x5C, CHR 0x22]
      else if c = CHR 0x5C then [CHR 0x5C, CHR 0x5C]
      else if c = CHR 0x08 then [CHR 0x5C, CHR ''b'']
      else if c = CHR 0x0C then [CHR 0x5C, CHR ''f'']
      else if c = CHR 0x0A then [CHR 0x5C, CHR ''n'']
      else if c = CHR 0x0D then [CHR 0x5C, CHR ''r'']
      else if c = CHR 0x09 then [CHR 0x5C, CHR ''t'']
      else if (of_char c :: int) < 32 then
        [CHR 0x5C, CHR ''u'', CHR ''0'', CHR ''0'',
         hex_digit (of_char c div 16), hex_digit (of_char c mod 16)]
      else [c])"

definition quote :: "string \<Rightarrow> string" where
  "quote s = CHR 0x22 # concat (map quote_char s) @ [CHR 0x22]"

fun join :: "string \<Rightarrow> string list \<Rightarrow> string" where
  "join sep [] = []"
| "join sep [x] = x"
| "join sep (x # y # ys) = x @ sep @ join sep (y # ys)"

subsection \<open>The order of an object's keys\<close>

text \<open>
  JavaScript enumerates the own properties of an object with the array-index keys first, in
  ascending numeric order, and the other string keys after them, in the order of their
  creation. An array index is the canonical decimal text of an integer from \<open>0\<close> to
  \<open>2^32 - 2\<close>: digits only, no leading zero.
\<close>

definition is_digit :: "char \<Rightarrow> bool" where
  "is_digit c \<longleftrightarrow> c \<in> set ''0123456789''"

definition digit_val :: "char \<Rightarrow> int" where
  "digit_val c = of_char c - 48"

definition read_nat :: "string \<Rightarrow> int" where
  "read_nat s = foldl (\<lambda>a c. a * 10 + digit_val c) 0 s"

definition is_index :: "string \<Rightarrow> bool" where
  "is_index k \<longleftrightarrow>
     k \<noteq> [] \<and> list_all is_digit k \<and> (k = ''0'' \<or> hd k \<noteq> CHR ''0'')
     \<and> read_nat k < 4294967295"

definition js_order :: "(string \<times> 'a) list \<Rightarrow> (string \<times> 'a) list" where
  "js_order ps =
     sort_key (\<lambda>p. read_nat (fst p)) (filter (\<lambda>p. is_index (fst p)) ps)
     @ filter (\<lambda>p. \<not> is_index (fst p)) ps"

subsection \<open>Serialization\<close>

text \<open>\<open>SerializeJSONProperty\<close>: \<open>None\<close> is the result \<open>undefined\<close>; an undefined array
  element is written \<open>null\<close>, an undefined property is left out. An object's properties
  are written in the order JavaScript enumerates them.\<close>

function stringify :: "json \<Rightarrow> string option"
  and stringify_elems :: "json list \<Rightarrow> string list"
  and stringify_props :: "(string \<times> json) list \<Rightarrow> string list"
where
  "stringify JUndefined = None"
| "stringify JNull = Some ''null''"
| "stringify (JBool b) = Some (if b then ''true'' else ''false'')"
| "stringify (JNum n) = Some (show_int (sint n))"
| "stringify (JStr s) = Some (quote s)"
| "stringify (JArr xs) = Some (''['' @ join '','' (stringify_elems xs) @ '']'')"
| "stringify (JObj ps) = Some (''{'' @ join '','' (stringify_props (js_order ps)) @ ''}'')"
| "stringify_elems [] = []"
| "stringify_elems (x # xs) =
     (case stringify x of None \<Rightarrow> ''null'' | Some s \<Rightarrow> s) # stringify_elems xs"
| "stringify_props [] = []"
| "stringify_props ((k, v) # ps) =
     (case stringify v of
        None \<Rightarrow> stringify_props ps
      | Some s \<Rightarrow> (quote k @ '':'' @ s) # stringify_props ps)"
  by pat_completeness auto
termination
proof -
  have ins: "size_list g (insort_key f x xs) = size_list g (x # xs)"
    for g :: "'a \<Rightarrow> nat" and f :: "'a \<Rightarrow> int" and x xs
    by (induction xs) auto
  have srt: "size_list g (sort_key f xs) = size_list g xs"
    for g :: "'a \<Rightarrow> nat" and f :: "'a \<Rightarrow> int" and xs
    by (induction xs) (auto simp: ins)
  have prt: "size_list g (filter P xs) + size_list g (filter (\<lambda>x. \<not> P x) xs) = size_list g xs"
    for g :: "'a \<Rightarrow> nat" and P xs
    by (induction xs) auto
  have ord: "size_list g (js_order ps) = size_list g ps"
    for g :: "string \<times> json \<Rightarrow> nat" and ps
    by (simp add: js_order_def srt prt)
  show ?thesis
    by (lexicographic_order simp: ord)
qed

text \<open>\<open>JSON.stringify(template)\<close> for an array of objects: always a string.\<close>

definition JSON_stringify :: "ModelConfig list \<Rightarrow> string" where
  "JSON_stringify t = ''['' @ join '','' (stringify_elems (map JObj t)) @ '']''"


subsection \<open>Values that are written as they are listed\<close>




definition stop :: "string \<Rightarrow> bool" where
  "stop r \<longleftrightarrow> (case r of [] \<Rightarrow> True | c # _ \<Rightarrow> c \<in> set '',]}'')"




section \<open>\<open>createHash('sha256')\<close>: SHA-256 (FIPS 180-4)\<close>

text \<open>32-bit words are integers in \<open>[0, 2^32)\<close>; addition wraps by masking with
  \<open>0xFFFFFFFF\<close>.\<close>

definition mask32 :: "int \<Rightarrow> int" where
  "mask32 x = x AND 0xFFFFFFFF"

definition rotr :: "nat \<Rightarrow> int \<Rightarrow> int" where
  "rotr n x = drop_bit n x + push_bit (32 - n) (take_bit n x)"

definition ssig0 :: "int \<Rightarrow> int" where
  "ssig0 x = rotr 7 x XOR rotr 18 x XOR drop_bit 3 x"

definition ssig1 :: "int \<Rightarrow> int" where
  "ssig1 x = rotr 17 x XOR rotr 19 x XOR drop_bit 10 x"

definition bsig0 :: "int \<Rightarrow> int" where
  "bsig0 x = rotr 2 x XOR rotr 13 x XOR rotr 22 x"

definition bsig1 :: "int \<Rightarrow> int" where
  "bsig1 x = rotr 6 x XOR rotr 11 x XOR rotr 25 x"

definition ch :: "int \<Rightarrow> int \<Rightarrow> int \<Rightarrow> int" where
  "ch x y z = (x AND y) XOR ((0xFFFFFFFF - x) AND z)"

definition maj :: "int \<Rightarrow> int \<Rightarrow> int \<Rightarrow> int" where
  "maj x y z = (x AND y) XOR (x AND z) XOR (y AND z)"

text \<open>The round constants and the initial hash value of SHA-256, in decimal.\<close>

definition K256 :: "int list" where
  "K256 =
    [1116352408, 1899447441, 3049323471, 3921009573, 961987163, 1508970993,
     2453635748, 2870763221, 3624381080, 310598401, 607225278, 1426881987,
     1925078388, 2162078206, 2614888103, 3248222580, 3835390401, 4022224774,
     264347078, 604807628, 770255983, 1249150122, 1555081692, 1996064986,
     2554220882, 2821834349, 2952996808, 3210313671, 3336571891, 3584528711,
     113926993, 338241895, 666307205, 773529912, 1294757372, 1396182291,
     1695183700, 1986661051, 2177026350, 2456956037, 2730485921, 2820302411,
     3259730800, 3345764771, 3516065817, 3600352804, 4094571909, 275423344,
     430227734, 506948616, 659060556, 883997877, 958139571, 1322822218,
     1537002063, 1747873779, 1955562222, 2024104815, 2227730452, 2361852424,
     2428436474, 2756734187, 3204031479, 3329325298]"

type_synonym sha_state = "int \<times> int \<times> int \<times> int \<times> int \<times> int \<times> int \<times> int"

definition H0 :: sha_state where
  "H0 = (1779033703, 3144134277, 1013904242, 2773480762,
         1359893119, 2600822924, 528734635, 1541459225)"

text \<open>The message schedule is kept as a window of sixteen words \<open>W\<^sub>t .. W\<^sub>t\<^sub>+\<^sub>1\<^sub>5\<close>;
  \<open>next_w\<close> is \<open>W\<^sub>t\<^sub>+\<^sub>1\<^sub>6\<close>.\<close>

fun next_w :: "int list \<Rightarrow> int" where
  "next_w [w0, w1, w2, w3, w4, w5, w6, w7, w8, w9, w10, w11, w12, w13, w14, w15] =
     mask32 (ssig1 w14 + w9 + ssig0 w1 + w0)"
| "next_w _ = 0"

fun round256 :: "int \<Rightarrow> int \<Rightarrow> sha_state \<Rightarrow> sha_state" where
  "round256 k w (a, b, c, d, e, f, g, h) =
     (let t1 = mask32 (h + bsig1 e + ch e f g + k + w);
          t2 = mask32 (bsig0 a + maj a b c)
      in (mask32 (t1 + t2), a, b, c, mask32 (d + t1), e, f, g))"

fun rounds :: "int list \<Rightarrow> int list \<Rightarrow> sha_state \<Rightarrow> sha_state" where
  "rounds [] ws s = s"
| "rounds (k # ks) ws s = rounds ks (tl ws @ [next_w ws]) (round256 k (hd ws) s)"

fun add_state :: "sha_state \<Rightarrow> sha_state \<Rightarrow> sha_state" where
  "add_state (a, b, c, d, e, f, g, h) (a', b', c', d', e', f', g', h') =
     (mask32 (a + a'), mask32 (b + b'), mask32 (c + c'), mask32 (d + d'),
      mask32 (e + e'), mask32 (f + f'), mask32 (g + g'), mask32 (h + h'))"

definition compress :: "sha_state \<Rightarrow> int list \<Rightarrow> sha_state" where
  "compress s blk = add_state s (rounds K256 blk s)"

text \<open>Padding: the byte \<open>0x80\<close>, zero bytes up to 56 modulo 64, the bit length as a
  64-bit big-endian number.\<close>

definition be_bytes8 :: "int \<Rightarrow> int list" where
  "be_bytes8 n = map (\<lambda>i. drop_bit (8 * i) n AND 0xFF) [7, 6, 5, 4, 3, 2, 1, 0]"

definition pad :: "int list \<Rightarrow> int list" where
  "pad bs =
     (let l = int (length bs)
      in bs @ [0x80] @ replicate (nat ((55 - l) mod 64)) 0 @ be_bytes8 (8 * l))"

fun words_of :: "int list \<Rightarrow> int list" where
  "words_of (a # b # c # d # bs) = (((a * 256 + b) * 256 + c) * 256 + d) # words_of bs"
| "words_of _ = []"

fun blocks_of :: "int list \<Rightarrow> int list list" where
  "blocks_of (w0 # w1 # w2 # w3 # w4 # w5 # w6 # w7 # w8 # w9 # w10 # w11 # w12 # w13 # w14 # w15 # ws) =
     [w0, w1, w2, w3, w4, w5, w6, w7, w8, w9, w10, w11, w12, w13, w14, w15] # blocks_of ws"
| "blocks_of _ = []"

definition hex32 :: "int \<Rightarrow> string" where
  "hex32 w = map (\<lambda>i. hex_digit (drop_bit (4 * i) w AND 0xF)) [7, 6, 5, 4, 3, 2, 1, 0]"

fun hex_state :: "sha_state \<Rightarrow> string" where
  "hex_state (a, b, c, d, e, f, g, h) =
     hex32 a @ hex32 b @ hex32 c @ hex32 d @ hex32 e @ hex32 f @ hex32 g @ hex32 h"

definition sha256_state :: "string \<Rightarrow> sha_state" where
  "sha256_state s = foldl compress H0 (blocks_of (words_of (pad (map of_char s))))"

text \<open>\<open>createHash('sha256').update(s).digest('hex')\<close>\<close>

definition sha256_hex :: "string \<Rightarrow> string" where
  "sha256_hex s = hex_state (sha256_state s)"



section \<open>The coding plan templates\<close>

datatype CodingPlanRegion = CHINA | GLOBAL

type_synonym CodingPlanTemplate = "ModelConfig list"

definition CODING_PLAN_ENV_KEY :: string where
  "CODING_PLAN_ENV_KEY = ''BAILIAN_CODING_PLAN_API_KEY''"

definition computeCodingPlanVersion :: "CodingPlanTemplate \<Rightarrow> string" where
  "computeCodingPlanVersion template = sha256_hex (JSON_stringify template)"

text \<open>The two shapes of entry the generator writes, with the properties in the order of the
  object literals: with and without \<open>extra_body\<close>.\<close>

definition thinking_entry :: "string \<Rightarrow> string \<Rightarrow> string \<Rightarrow> 54 word \<Rightarrow> ModelConfig" where
  "thinking_entry i n url cws =
     [(''id'', JStr i), (''name'', JStr n), (''baseUrl'', JStr url),
      (''envKey'', JStr CODING_PLAN_ENV_KEY),
      (''generationConfig'',
         JObj [(''extra_body'', JObj [(''enable_thinking'', JBool True)]),
               (''contextWindowSize'', JNum cws)])]"

definition plain_entry :: "string \<Rightarrow> string \<Rightarrow> string \<Rightarrow> 54 word \<Rightarrow> ModelConfig" where
  "plain_entry i n url cws =
     [(''id'', JStr i), (''name'', JStr n), (''baseUrl'', JStr url),
      (''envKey'', JStr CODING_PLAN_ENV_KEY),
      (''generationConfig'', JObj [(''contextWindowSize'', JNum cws)])]"

definition CHINA_URL :: string where
  "CHINA_URL = ''https://coding.dashscope.aliyuncs.com/v1''"

definition GLOBAL_URL :: string where
  "GLOBAL_URL = ''https://coding-intl.dashscope.aliyuncs.com/v1''"

fun generateCodingPlanTemplate :: "CodingPlanRegion \<Rightarrow> CodingPlanTemplate" where
  "generateCodingPlanTemplate CHINA =
     [thinking_entry ''qwen3.5-plus'' ''[Bailian Coding Plan] qwen3.5-plus'' CHINA_URL 1000000,
      plain_entry ''qwen3-coder-plus'' ''[Bailian Coding Plan] qwen3-coder-plus'' CHINA_URL 1000000,
      plain_entry ''qwen3-coder-next'' ''[Bailian Coding Plan] qwen3-coder-next'' CHINA_URL 262144,
      thinking_entry ''qwen3-max-2026-01-23'' ''[Bailian Coding Plan] qwen3-max-2026-01-23''
        CHINA_URL 262144,
      thinking_entry ''glm-4.7'' ''[Bailian Coding Plan] glm-4.7'' CHINA_URL 202752,
      thinking_entry ''glm-5'' ''[Bailian Coding Plan] glm-5'' CHINA_URL 202752,
      thinking_entry ''MiniMax-M2.5'' ''[Bailian Coding Plan] MiniMax-M2.5'' CHINA_URL 1000000,
      thinking_entry ''kimi-k2.5'' ''[Bailian Coding Plan] kimi-k2.5'' CHINA_URL 262144]"
| "generateCodingPlanTemplate GLOBAL =
     [thinking_entry ''qwen3.5-plus'' ''[Bailian Coding Plan for Global/Intl] qwen3.5-plus''
        GLOBAL_URL 1000000,
      plain_entry ''qwen3-coder-plus'' ''[Bailian Coding Plan for Global/Intl] qwen3-coder-plus''
        GLOBAL_URL 1000000,
      plain_entry ''qwen3-coder-next'' ''[Bailian Coding Plan for Global/Intl] qwen3-coder-next''
        GLOBAL_URL 262144,
      thinking_entry ''qwen3-max-2026-01-23''
        ''[Bailian Coding Plan for Global/Intl] qwen3-max-2026-01-23'' GLOBAL_URL 262144,
      thinking_entry ''glm-4.7'' ''[Bailian Coding Plan for Global/Intl] glm-4.7'' GLOBAL_URL 202752,
      thinking_entry ''glm-5'' ''[Bailian Coding Plan for Global/Intl] glm-5'' GLOBAL_URL 202752,
      thinking_entry ''MiniMax-M2.5'' ''[Bailian Coding Plan for Global/Intl] MiniMax-M2.5''
        GLOBAL_URL 1000000,
      thinking_entry ''kimi-k2.5'' ''[Bailian Coding Plan for Global/Intl] kimi-k2.5''
        GLOBAL_URL 262144]"

text \<open>The object \<open>getCodingPlanConfig\<close> returns; the fields \<open>template\<close>, \<open>baseUrl\<close>,
  \<open>regionName\<close> and \<open>version\<close> carry a prefix here.\<close>

record CodingPlanConfig =
  cfg_template :: CodingPlanTemplate
  cfg_baseUrl :: string
  cfg_regionName :: string
  cfg_version :: string

definition getCodingPlanConfig :: "CodingPlanRegion \<Rightarrow> CodingPlanConfig" where
  "getCodingPlanConfig region =
     (let template = generateCodingPlanTemplate region;
          baseUrl = (if region = CHINA then CHINA_URL else GLOBAL_URL);
          regionName = (if region = CHINA then ''Coding Plan (Bailian, China)''
                        else ''Coding Plan (Bailian, Global/Intl)'')
      in \<lparr> cfg_template = template, cfg_baseUrl = baseUrl, cfg_regionName = regionName,
           cfg_version = computeCodingPlanVersion template \<rparr>)"

text \<open>\<open>isCodingPlanConfig\<close>: \<open>None\<close> is the result \<open>false\<close>. \<open>!baseUrl\<close> holds for
  \<open>undefined\<close> and for the empty string.\<close>

definition isCodingPlanConfig :: "string option \<Rightarrow> string option \<Rightarrow> CodingPlanRegion option" where
  "isCodingPlanConfig baseUrl envKey =
     (if baseUrl = None \<or> baseUrl = Some [] \<or> envKey = None \<or> envKey = Some [] then None
      else if envKey \<noteq> Some CODING_PLAN_ENV_KEY then None
      else if baseUrl = Some ''https://coding.dashscope.aliyuncs.com/v1'' then Some CHINA
      else if baseUrl = Some ''https://coding-intl.dashscope.aliyuncs.com/v1'' then Some GLOBAL
      else None)"


section \<open>Available models for an authentication type\<close>

text \<open>The authentication types of the core package, as the provider documentation lists
  them: \<open>qwen-oauth\<close>, \<open>openai\<close>, \<open>anthropic\<close>, \<open>gemini\<close>, \<open>vertex-ai\<close>.\<close>

datatype AuthType = QWEN_OAUTH | USE_OPENAI | USE_ANTHROPIC | USE_GEMINI | USE_VERTEX_AI

record Capabilities =
  vision :: "bool option"

text \<open>An entry of the core constant \<open>QWEN_OAUTH_MODELS\<close>; the constant itself is a
  parameter of the functions below.\<close>

record OAuthModel =
  oauth_id :: string
  oauth_name :: "string option"
  oauth_description :: "string option"
  oauth_capabilities :: "Capabilities option"

text \<open>The core package's \<open>AvailableModel\<close>, as far as the conversion reads it.\<close>

record CoreAvailableModel =
  core_id :: string
  core_label :: string
  core_description :: "string option"
  core_isVision :: "bool option"
  core_capabilities :: "Capabilities option"

text \<open>The command line's \<open>AvailableModel\<close>: \<open>id\<close>, \<open>label\<close>, \<open>description\<close>, \<open>isVision\<close>.\<close>

record AvailableModel =
  model_id :: string
  model_label :: string
  model_description :: "string option"
  model_isVision :: "bool option"

text \<open>\<open>x?.vision\<close> on optional capabilities.\<close>

definition vision_of :: "Capabilities option \<Rightarrow> bool option" where
  "vision_of caps = (case caps of None \<Rightarrow> None | Some c \<Rightarrow> vision c)"

text \<open>\<open>a ?? b\<close>\<close>

definition nullish :: "'a option \<Rightarrow> 'a \<Rightarrow> 'a" where
  "nullish a b = (case a of None \<Rightarrow> b | Some v \<Rightarrow> v)"

definition CACHED_QWEN_OAUTH_MODELS :: "OAuthModel list \<Rightarrow> AvailableModel list" where
  "CACHED_QWEN_OAUTH_MODELS qwen_models =
     map (\<lambda>m. \<lparr> model_id = oauth_id m,
                 model_label = nullish (oauth_name m) (oauth_id m),
                 model_description = oauth_description m,
                 model_isVision = Some (nullish (vision_of (oauth_capabilities m)) False) \<rparr>)
         qwen_models"

definition getQwenOAuthModels :: "OAuthModel list \<Rightarrow> AvailableModel list" where
  "getQwenOAuthModels qwen_models = CACHED_QWEN_OAUTH_MODELS qwen_models"

definition getFilteredQwenModels :: "OAuthModel list \<Rightarrow> AvailableModel list" where
  "getFilteredQwenModels qwen_models = getQwenOAuthModels qwen_models"

text \<open>
  \<open>String.prototype.trim\<close> removes white space and line terminators from both ends. In
  UTF-8 these are the bytes \<open>09\<close> to \<open>0D\<close> and \<open>20\<close>, and the encodings of U+00A0, U+1680,
  U+2000 to U+200A, U+2028, U+2029, U+202F, U+205F, U+3000 and U+FEFF.
\<close>

definition WHITE_SPACE :: "string list" where
  "WHITE_SPACE =
     [[CHR 0x09], [CHR 0x0A], [CHR 0x0B], [CHR 0x0C], [CHR 0x0D], [CHR 0x20],
      [CHR 0xC2, CHR 0xA0],
      [CHR 0xE1, CHR 0x9A, CHR 0x80],
      [CHR 0xE2, CHR 0x80, CHR 0x80], [CHR 0xE2, CHR 0x80, CHR 0x81],
      [CHR 0xE2, CHR 0x80, CHR 0x82], [CHR 0xE2, CHR 0x80, CHR 0x83],
      [CHR 0xE2, CHR 0x80, CHR 0x84], [CHR 0xE2, CHR 0x80, CHR 0x85],
      [CHR 0xE2, CHR 0x80, CHR 0x86], [CHR 0xE2, CHR 0x80, CHR 0x87],
      [CHR 0xE2, CHR 0x80, CHR 0x88], [CHR 0xE2, CHR 0x80, CHR 0x89],
      [CHR 0xE2, CHR 0x80, CHR 0x8A],
      [CHR 0xE2, CHR 0x80, CHR 0xA8], [CHR 0xE2, CHR 0x80, CHR 0xA9],
      [CHR 0xE2, CHR 0x80, CHR 0xAF],
      [CHR 0xE2, CHR 0x81, CHR 0x9F],
      [CHR 0xE3, CHR 0x80, CHR 0x80],
      [CHR 0xEF, CHR 0xBB, CHR 0xBF]]"

text \<open>The length of the white-space character at the head of the text, \<open>0\<close> without one;
  \<open>ws\<close> is the list of encodings.\<close>

definition white_head :: "string list \<Rightarrow> string \<Rightarrow> nat" where
  "white_head ws s = (case find (\<lambda>w. prefix w s) ws of None \<Rightarrow> 0 | Some w \<Rightarrow> length w)"

function trim_start :: "string list \<Rightarrow> string \<Rightarrow> string" where
  "trim_start ws s =
     (if white_head ws s = 0 \<or> s = [] then s else trim_start ws (drop (white_head ws s) s))"
  by pat_completeness auto
termination
  by (relation "measure (\<lambda>(ws, s). length s)") auto

text \<open>The end of the text is trimmed on the reversed text, with the encodings reversed.\<close>

definition trim :: "string \<Rightarrow> string" where
  "trim s = rev (trim_start (map rev WHITE_SPACE) (rev (trim_start WHITE_SPACE s)))"

text \<open>\<open>process.env\<close> is a map from variable names to values; \<open>t\<close> is the translation
  function of the i18n module.\<close>

type_synonym environment = "string \<rightharpoonup> string"

definition env_model :: "(string \<Rightarrow> string) \<Rightarrow> environment \<Rightarrow> string \<Rightarrow> string
    \<Rightarrow> AvailableModel option" where
  "env_model t env var msg =
     (case map_option trim (env var) of
        None \<Rightarrow> None
      | Some i \<Rightarrow>
          if i = [] then None
          else Some \<lparr> model_id = i, model_label = i, model_description = Some (t msg),
                      model_isVision = None \<rparr>)"

definition getOpenAIAvailableModelFromEnv :: "(string \<Rightarrow> string) \<Rightarrow> environment
    \<Rightarrow> AvailableModel option" where
  "getOpenAIAvailableModelFromEnv t env =
     env_model t env ''OPENAI_MODEL'' ''Configured via OPENAI_MODEL environment variable''"

definition getAnthropicAvailableModelFromEnv :: "(string \<Rightarrow> string) \<Rightarrow> environment
    \<Rightarrow> AvailableModel option" where
  "getAnthropicAvailableModelFromEnv t env =
     env_model t env ''ANTHROPIC_MODEL'' ''Configured via ANTHROPIC_MODEL environment variable''"

definition convertCoreModelToCliModel :: "CoreAvailableModel \<Rightarrow> AvailableModel" where
  "convertCoreModelToCliModel coreModel =
     \<lparr> model_id = core_id coreModel,
       model_label = core_label coreModel,
       model_description = core_description coreModel,
       model_isVision =
         Some (case core_isVision coreModel of
                 Some b \<Rightarrow> b
               | None \<Rightarrow> nullish (vision_of (core_capabilities coreModel)) False) \<rparr>"

text \<open>A \<open>Config\<close> object is its method \<open>getAvailableModelsForAuthType\<close>, which returns a
  list or throws.\<close>

datatype exn = Thrown string

type_synonym Config = "AuthType \<Rightarrow> exn + CoreAvailableModel list"

definition getAvailableModelsForAuthType :: "(string \<Rightarrow> string) \<Rightarrow> environment
    \<Rightarrow> OAuthModel list \<Rightarrow> AuthType \<Rightarrow> Config option \<Rightarrow> AvailableModel list" where
  "getAvailableModelsForAuthType t env qwen_models authType config =
     (case config of
        Some cfg \<Rightarrow>
          (case cfg authType of
             Inr models \<Rightarrow>
               if length models > 0 then map convertCoreModelToCliModel models else []
           | Inl _ \<Rightarrow> [])
      | None \<Rightarrow>
          (case authType of
             QWEN_OAUTH \<Rightarrow> getQwenOAuthModels qwen_models
           | USE_OPENAI \<Rightarrow>
               (case getOpenAIAvailableModelFromEnv t env of
                  Some openAIModel \<Rightarrow> [openAIModel] | None \<Rightarrow> [])
           | USE_ANTHROPIC \<Rightarrow>
               (case getAnthropicAvailableModelFromEnv t env of
                  Some anthropicModel \<Rightarrow> [anthropicModel] | None \<Rightarrow> [])
           | _ \<Rightarrow> []))"



section \<open>The provider catalog\<close>

text \<open>
  The provider catalog (the model registry of the core package) is not among the sources;
  this section follows sections 3, 4.1 and 7 of the specification. A catalog maps an
  authentication type to its bucket, an ordered list of entries; the entries are the
  \<open>ProviderModelConfig\<close> objects of the templates above.
\<close>

definition entry_id :: "ModelConfig \<Rightarrow> string option" where
  "entry_id e = str_prop ''id'' e"


type_synonym catalog = "AuthType \<Rightarrow> ModelConfig list"

definition authType_key :: "AuthType \<Rightarrow> string" where
  "authType_key a =
     (case a of QWEN_OAUTH \<Rightarrow> ''qwen-oauth'' | USE_OPENAI \<Rightarrow> ''openai''
      | USE_ANTHROPIC \<Rightarrow> ''anthropic'' | USE_GEMINI \<Rightarrow> ''gemini''
      | USE_VERTEX_AI \<Rightarrow> ''vertex-ai'')"





definition empty_catalog :: catalog where
  "empty_catalog = (\<lambda>a. [])"

text \<open>Modelled from the spec: \<open>lookup(authType, modelId)\<close>, missing from the sources.\<close>

definition lookup_model :: "catalog \<Rightarrow> AuthType \<Rightarrow> string \<Rightarrow> ModelConfig option" where
  "lookup_model cat a modelId = find (\<lambda>e. entry_id e = Some modelId) (cat a)"


section \<open>Layered resolution of the generation configuration\<close>

text \<open>
  The field resolver and the generation-config merger (the configuration resolver of the
  core package) are not among the sources; this section follows sections 3, 4.2 and 4.3 of
  the specification. A generation configuration has independent scalar fields and three
  atomic object fields; \<open>None\<close> is a field that is not present. Of the scalar fields the
  specification names \<open>timeout\<close>, \<open>maxRetries\<close>, \<open>contextWindowSize\<close> and
  \<open>schemaCompliance\<close>.
\<close>

record GenerationConfig =
  gc_timeout :: "int option"
  gc_maxRetries :: "int option"
  gc_contextWindowSize :: "int option"
  gc_schemaCompliance :: "string option"
  gc_samplingParams :: "(string \<times> json) list option"
  gc_customHeaders :: "(string \<times> json) list option"
  gc_extra_body :: "(string \<times> json) list option"

definition undefined_config :: GenerationConfig where
  "undefined_config =
     \<lparr> gc_timeout = None, gc_maxRetries = None, gc_contextWindowSize = None,
       gc_schemaCompliance = None, gc_samplingParams = None, gc_customHeaders = None,
       gc_extra_body = None \<rparr>"

text \<open>Modelled from the spec: \<open>resolve(fieldName, layers)\<close>, missing from the sources. The
  value of the first layer, in descending priority, where the field is present; a present
  but empty value (\<open>Some []\<close>) wins.\<close>

fun resolve :: "('layer \<Rightarrow> 'v option) \<Rightarrow> 'layer list \<Rightarrow> 'v option" where
  "resolve field [] = None"
| "resolve field (l # ls) = (case field l of Some v \<Rightarrow> Some v | None \<Rightarrow> resolve field ls)"

text \<open>The first present value among four layers, written out: CLI, then environment,
  then settings, then defaults.\<close>

definition first_present :: "'v option \<Rightarrow> 'v option \<Rightarrow> 'v option \<Rightarrow> 'v option \<Rightarrow> 'v option" where
  "first_present cli env settings defaults =
     (case cli of Some v \<Rightarrow> Some v
      | None \<Rightarrow> (case env of Some v \<Rightarrow> Some v
         | None \<Rightarrow> (case settings of Some v \<Rightarrow> Some v | None \<Rightarrow> defaults)))"

text \<open>Modelled from the spec: the generation-config merger, missing from the sources. A
  catalog-backed selection takes the entry's configuration verbatim (an entry without one
  leaves every field undefined); an ad-hoc selection resolves every field on its own over
  the layers CLI, environment, settings, defaults.\<close>

definition mergeGenerationConfig :: "bool \<Rightarrow> GenerationConfig option \<Rightarrow> GenerationConfig
    \<Rightarrow> GenerationConfig \<Rightarrow> GenerationConfig \<Rightarrow> GenerationConfig \<Rightarrow> GenerationConfig" where
  "mergeGenerationConfig isCatalogBacked entryConfig cli env settings defaults =
     (if isCatalogBacked then
        (case entryConfig of Some g \<Rightarrow> g | None \<Rightarrow> undefined_config)
      else
        (let layers = [cli, env, settings, defaults]
         in \<lparr> gc_timeout = resolve gc_timeout layers,
              gc_maxRetries = resolve gc_maxRetries layers,
              gc_contextWindowSize = resolve gc_contextWindowSize layers,
              gc_schemaCompliance = resolve gc_schemaCompliance layers,
              gc_samplingParams = resolve gc_samplingParams layers,
              gc_customHeaders = resolve gc_customHeaders layers,
              gc_extra_body = resolve gc_extra_body layers \<rparr>))"


section \<open>The runtime model registry\<close>




text \<open>Modelled from the spec: the synthetic address
  \<open>"$runtime|" + authType + "|" + model\<close>, missing from the sources.\<close>

definition address :: "AuthType \<Rightarrow> string \<Rightarrow> string" where
  "address a m = ''$runtime|'' @ authType_key a @ ''|'' @ m"

definition present :: "string option \<Rightarrow> bool" where
  "present s \<longleftrightarrow> s \<noteq> None \<and> s \<noteq> Some []"








section \<open>The managed template updater\<close>

text \<open>
  The managed template updater (the code that applies a coding plan update to the
  settings) is not among the sources; this section follows sections 3, 4.5, 5 and 7 of the
  specification. A managed template is a named bundle of entries; its version token is
  computed from the entries. The family's signature is the one \<open>isCodingPlanConfig\<close>
  recognises.
\<close>

record ManagedTemplate =
  mt_region :: CodingPlanRegion
  mt_entries :: "ModelConfig list"

definition computeVersion :: "ManagedTemplate \<Rightarrow> string" where
  "computeVersion tpl = computeCodingPlanVersion (mt_entries tpl)"

datatype update_state = UpToDate string | UpdateAvailable string | Updating string

text \<open>Modelled from the spec: \<open>detectUpdate(installedVersion, latestTemplate)\<close>, missing
  from the sources.\<close>

definition detectUpdate :: "string \<Rightarrow> ManagedTemplate \<Rightarrow> update_state" where
  "detectUpdate installedVersion latestTemplate =
     (if installedVersion = computeVersion latestTemplate then UpToDate installedVersion
      else UpdateAvailable (computeVersion latestTemplate))"

text \<open>Modelled from the spec: the recognition of an entry of the managed family, missing
  from the sources. The signature is the one \<open>isCodingPlanConfig\<close> recognises, for any
  region: the credential key is one for both regions, which exclude each other.\<close>

definition is_managed :: "ModelConfig \<Rightarrow> bool" where
  "is_managed e \<longleftrightarrow>
     isCodingPlanConfig (str_prop ''baseUrl'' e) (str_prop ''envKey'' e) \<noteq> None"

definition well_formed_entry :: "ModelConfig \<Rightarrow> bool" where
  "well_formed_entry e \<longleftrightarrow> present (str_prop ''id'' e) \<and> present (str_prop ''envKey'' e)"

datatype update_error = TemplateUpdateFailed

text \<open>Modelled from the spec: the construction of the replacement entries, missing from the
  sources. It goes entry by entry and fails on a malformed one; the provider documentation
  requires of each entry an \<open>id\<close> and an \<open>envKey\<close>.\<close>

fun construct :: "ModelConfig list \<Rightarrow> ModelConfig list \<Rightarrow> update_error + ModelConfig list" where
  "construct acc [] = Inr acc"
| "construct acc (e # es) =
     (if well_formed_entry e then construct (acc @ [e]) es else Inl TemplateUpdateFailed)"

text \<open>Modelled from the spec: the replacement bucket, missing from the sources. The entries
  that match the signature are removed and the new entries are inserted in their place,
  that is where the first of them stood; without a managed entry they follow the bucket.\<close>

definition replace_managed :: "ModelConfig list \<Rightarrow> ModelConfig list \<Rightarrow> ModelConfig list" where
  "replace_managed new bucket =
     takeWhile (\<lambda>e. \<not> is_managed e) bucket
     @ new
     @ filter (\<lambda>e. \<not> is_managed e) (dropWhile (\<lambda>e. \<not> is_managed e) bucket)"

text \<open>Modelled from the spec: \<open>applyUpdate(catalog, authType, latestTemplate)\<close>, missing
  from the sources. The bucket is published only when the construction has succeeded.\<close>

definition applyUpdate :: "catalog \<Rightarrow> AuthType \<Rightarrow> ManagedTemplate \<Rightarrow> update_error + catalog" where
  "applyUpdate cat authType latestTemplate =
     (case construct [] (mt_entries latestTemplate) of
        Inl err \<Rightarrow> Inl err
      | Inr new \<Rightarrow>
          Inr (cat(authType := replace_managed new (cat authType))))"

text \<open>Modelled from the spec: the re-selection after an update, missing from the sources.
  The active model id is kept when the bucket still has it, otherwise the template's first
  entry is selected.\<close>

definition reselect :: "string \<Rightarrow> ModelConfig list \<Rightarrow> ModelConfig list \<Rightarrow> string" where
  "reselect selected bucket new =
     (if Some selected \<in> set (map entry_id bucket) then selected
      else (case new of
              [] \<Rightarrow> selected
            | e # _ \<Rightarrow> (case entry_id e of Some i \<Rightarrow> i | None \<Rightarrow> selected)))"

record updater =
  upd_catalog :: catalog
  upd_selection :: string
  upd_state :: update_state

text \<open>Modelled from the spec: the transitions of the updater's state machine, missing from
  the sources. A newer template is published, the user accepts, the update is applied
  (success or failure).\<close>

definition publish :: "ManagedTemplate \<Rightarrow> updater \<Rightarrow> updater" where
  "publish latestTemplate u =
     (case upd_state u of
        UpToDate installed \<Rightarrow> u\<lparr>upd_state := detectUpdate installed latestTemplate\<rparr>
      | _ \<Rightarrow> u)"

definition accept :: "updater \<Rightarrow> updater" where
  "accept u =
     (case upd_state u of
        UpdateAvailable latest \<Rightarrow> u\<lparr>upd_state := Updating latest\<rparr>
      | _ \<Rightarrow> u)"

definition finish :: "AuthType \<Rightarrow> ManagedTemplate \<Rightarrow> updater \<Rightarrow> updater" where
  "finish authType latestTemplate u =
     (case upd_state u of
        Updating latest \<Rightarrow>
          (case applyUpdate (upd_catalog u) authType latestTemplate of
             Inl err \<Rightarrow> u\<lparr>upd_state := UpdateAvailable latest\<rparr>
           | Inr cat' \<Rightarrow>
               \<lparr> upd_catalog = cat',
                 upd_selection =
                   reselect (upd_selection u) (cat' authType) (mt_entries latestTemplate),
                 upd_state = UpToDate (computeVersion latestTemplate) \<rparr>)
      | _ \<Rightarrow> u)"


section \<open>Example inputs\<close>


text \<open>The provider entry's and the settings' generation configuration of the spec's
  properties P2 and P3. The temperatures \<open>0.2\<close> and \<open>0.5\<close> are kept as their decimal
  text.\<close>

definition provider_example :: GenerationConfig where
  "provider_example =
     undefined_config\<lparr> gc_timeout := Some 60000,
                       gc_samplingParams := Some [(''temperature'', JStr ''0.2'')] \<rparr>"

definition settings_example :: GenerationConfig where
  "settings_example =
     undefined_config\<lparr> gc_timeout := Some 30000,
                       gc_samplingParams :=
                         Some [(''temperature'', JStr ''0.5''), (''max_tokens'', JNum 1000)] \<rparr>"

text \<open>A bucket with one entry of an earlier China template, one entry the user added under
  a credential key of their own (the spec's property P7) and one entry of an earlier Global
  template, and the current China template as a managed template.\<close>

definition old_managed_entry :: ModelConfig where
  "old_managed_entry =
     plain_entry ''qwen3-coder-old'' ''[Bailian Coding Plan] qwen3-coder-old'' CHINA_URL 131072"

definition manual_entry :: ModelConfig where
  "manual_entry =
     [(''id'', JStr ''my-model''), (''baseUrl'', JStr CHINA_URL), (''envKey'', JStr ''MY_API_KEY'')]"

definition other_region_entry :: ModelConfig where
  "other_region_entry =
     plain_entry ''qwen3-max-old'' ''[Bailian Coding Plan for Global/Intl] qwen3-max-old''
       GLOBAL_URL 131072"

definition example_catalog :: catalog where
  "example_catalog =
     empty_catalog(USE_OPENAI := [old_managed_entry, manual_entry, other_region_entry])"

definition china_template :: ManagedTemplate where
  "china_template = \<lparr> mt_region = CHINA, mt_entries = generateCodingPlanTemplate CHINA \<rparr>"

text \<open>A template whose second entry has no \<open>id\<close>.\<close>

definition malformed_template :: ManagedTemplate where
  "malformed_template =
     \<lparr> mt_region = CHINA,
       mt_entries = [plain_entry ''qwen3-coder-plus'' ''[Bailian Coding Plan] qwen3-coder-plus''
                       CHINA_URL 1000000,
                     [(''name'', JStr ''nameless''), (''envKey'', JStr CODING_PLAN_ENV_KEY)]] \<rparr>"


section \<open>Properties of the coding plan signature\<close>

lemma CODING_PLAN_ENV_KEY_nonempty: "CODING_PLAN_ENV_KEY \<noteq> []"
  by (simp add: CODING_PLAN_ENV_KEY_def)

text \<open>
  C4. \<open>isCodingPlanConfig\<close> returns a region exactly when the \<open>envKey\<close> is
  \<open>BAILIAN_CODING_PLAN_API_KEY\<close> and the \<open>baseUrl\<close> is that region's endpoint; in every
  other case, an undefined argument included, it returns \<open>false\<close> (\<open>None\<close>). The result is
  a function of the pair (\<open>baseUrl\<close>, \<open>envKey\<close>) alone, so a hand-written entry with the
  same pair is recognised exactly as a managed one is.
\<close>

theorem isCodingPlanConfig_exact:
  "isCodingPlanConfig baseUrl envKey =
     (if envKey = Some ''BAILIAN_CODING_PLAN_API_KEY''
         \<and> baseUrl = Some ''https://coding.dashscope.aliyuncs.com/v1'' then Some CHINA
      else if envKey = Some ''BAILIAN_CODING_PLAN_API_KEY''
         \<and> baseUrl = Some ''https://coding-intl.dashscope.aliyuncs.com/v1'' then Some GLOBAL
      else None)"
  by (simp add: isCodingPlanConfig_def CODING_PLAN_ENV_KEY_def)

lemma str_prop_thinking_entry:
  "str_prop ''id'' (thinking_entry i n url cws) = Some i"
  "str_prop ''baseUrl'' (thinking_entry i n url cws) = Some url"
  "str_prop ''envKey'' (thinking_entry i n url cws) = Some CODING_PLAN_ENV_KEY"
  by (simp_all add: str_prop_def thinking_entry_def)

lemma str_prop_plain_entry:
  "str_prop ''id'' (plain_entry i n url cws) = Some i"
  "str_prop ''baseUrl'' (plain_entry i n url cws) = Some url"
  "str_prop ''envKey'' (plain_entry i n url cws) = Some CODING_PLAN_ENV_KEY"
  by (simp_all add: str_prop_def plain_entry_def)

lemma isCodingPlanConfig_CHINA:
  "isCodingPlanConfig (Some CHINA_URL) (Some CODING_PLAN_ENV_KEY) = Some CHINA"
  by (simp add: isCodingPlanConfig_def CHINA_URL_def CODING_PLAN_ENV_KEY_def)

lemma isCodingPlanConfig_GLOBAL:
  "isCodingPlanConfig (Some GLOBAL_URL) (Some CODING_PLAN_ENV_KEY) = Some GLOBAL"
  by (simp add: isCodingPlanConfig_def GLOBAL_URL_def CODING_PLAN_ENV_KEY_def)

text \<open>
  C9. Every entry of \<open>generateCodingPlanTemplate region\<close> carries the \<open>envKey\<close>
  \<open>BAILIAN_CODING_PLAN_API_KEY\<close>, and \<open>isCodingPlanConfig\<close> applied to the entry's
  \<open>baseUrl\<close> and \<open>envKey\<close> returns exactly that region.
\<close>

theorem template_entries_recognised:
  "\<forall>e \<in> set (generateCodingPlanTemplate region).
     str_prop ''envKey'' e = Some ''BAILIAN_CODING_PLAN_API_KEY''
     \<and> isCodingPlanConfig (str_prop ''baseUrl'' e) (str_prop ''envKey'' e) = Some region"
proof (cases region)
  case CHINA
  then show ?thesis
    by (simp add: str_prop_thinking_entry str_prop_plain_entry isCodingPlanConfig_CHINA)
       (simp add: CODING_PLAN_ENV_KEY_def)
next
  case GLOBAL
  then show ?thesis
    by (simp add: str_prop_thinking_entry str_prop_plain_entry isCodingPlanConfig_GLOBAL)
       (simp add: CODING_PLAN_ENV_KEY_def)
qed

theorem template_entries_recognised_witness:
  "plain_entry ''qwen3-coder-plus'' ''[Bailian Coding Plan] qwen3-coder-plus'' CHINA_URL 1000000
     \<in> set (generateCodingPlanTemplate CHINA)
   \<and> str_prop ''envKey''
       (plain_entry ''qwen3-coder-plus'' ''[Bailian Coding Plan] qwen3-coder-plus'' CHINA_URL 1000000)
     = Some ''BAILIAN_CODING_PLAN_API_KEY''
   \<and> isCodingPlanConfig
       (str_prop ''baseUrl''
          (plain_entry ''qwen3-coder-plus'' ''[Bailian Coding Plan] qwen3-coder-plus'' CHINA_URL 1000000))
       (str_prop ''envKey''
          (plain_entry ''qwen3-coder-plus'' ''[Bailian Coding Plan] qwen3-coder-plus'' CHINA_URL 1000000))
     = Some CHINA"
proof -
  have m: "plain_entry ''qwen3-coder-plus'' ''[Bailian Coding Plan] qwen3-coder-plus'' CHINA_URL 1000000
     \<in> set (generateCodingPlanTemplate CHINA)"
    by simp
  from template_entries_recognised [of CHINA, THEN bspec, OF m] m show ?thesis
    by blast
qed


section \<open>Properties of the available-model list\<close>

text \<open>
  C10. Called with a \<open>Config\<close> object, \<open>getAvailableModelsForAuthType\<close> returns the
  registry's models when the registry returns a list, one record for each model and in the
  same order, with the model's \<open>id\<close>, \<open>label\<close> and \<open>description\<close> and with \<open>isVision\<close>
  taken from the model, else from its capabilities, else \<open>false\<close>; this is the empty list
  when the registry's list is empty, and it is the empty list when the registry throws. The
  result does not depend on the environment, the translation function or the built-in Qwen
  models. Only without a \<open>Config\<close> are \<open>OPENAI_MODEL\<close> and \<open>ANTHROPIC_MODEL\<close> read.
\<close>

theorem getAvailableModelsForAuthType_config:
  "getAvailableModelsForAuthType t env qwen_models authType (Some cfg) =
     (case cfg authType of
        Inl _ \<Rightarrow> []
      | Inr models \<Rightarrow>
          map (\<lambda>m. \<lparr> model_id = core_id m,
                      model_label = core_label m,
                      model_description = core_description m,
                      model_isVision =
                        Some (case core_isVision m of
                                Some b \<Rightarrow> b
                              | None \<Rightarrow>
                                  (case core_capabilities m of
                                     None \<Rightarrow> False
                                   | Some c \<Rightarrow>
                                       (case vision c of None \<Rightarrow> False | Some b \<Rightarrow> b))) \<rparr>)
              models)
   \<and> map model_id (getAvailableModelsForAuthType t env qwen_models authType (Some cfg)) =
       (case cfg authType of Inl _ \<Rightarrow> [] | Inr models \<Rightarrow> map core_id models)
   \<and> getAvailableModelsForAuthType t env qwen_models authType (Some cfg) =
       getAvailableModelsForAuthType t' env' qwen_models' authType (Some cfg)
   \<and> getAvailableModelsForAuthType t env qwen_models USE_OPENAI None =
       (case getOpenAIAvailableModelFromEnv t env of Some m \<Rightarrow> [m] | None \<Rightarrow> [])
   \<and> getAvailableModelsForAuthType t env qwen_models USE_ANTHROPIC None =
       (case getAnthropicAvailableModelFromEnv t env of Some m \<Rightarrow> [m] | None \<Rightarrow> [])"
proof -
  have conv: "convertCoreModelToCliModel =
      (\<lambda>m. \<lparr> model_id = core_id m,
              model_label = core_label m,
              model_description = core_description m,
              model_isVision =
                Some (case core_isVision m of
                        Some b \<Rightarrow> b
                      | None \<Rightarrow>
                          (case core_capabilities m of
                             None \<Rightarrow> False
                           | Some c \<Rightarrow> (case vision c of None \<Rightarrow> False | Some b \<Rightarrow> b))) \<rparr>)"
    by (rule ext)
       (simp add: convertCoreModelToCliModel_def nullish_def vision_of_def split: option.splits)
  have main: "getAvailableModelsForAuthType t env qwen_models authType (Some cfg) =
      (case cfg authType of Inl _ \<Rightarrow> [] | Inr models \<Rightarrow> map convertCoreModelToCliModel models)"
    for t env qwen_models
    by (simp add: getAvailableModelsForAuthType_def split: sum.splits)
  have c1: "getAvailableModelsForAuthType t env qwen_models authType (Some cfg) =
      getAvailableModelsForAuthType t' env' qwen_models' authType (Some cfg)"
    by (simp only: main)
  have c2: "map model_id (getAvailableModelsForAuthType t env qwen_models authType (Some cfg)) =
       (case cfg authType of Inl _ \<Rightarrow> [] | Inr models \<Rightarrow> map core_id models)"
    by (simp add: main convertCoreModelToCliModel_def split: sum.splits)
  have c3: "getAvailableModelsForAuthType t env qwen_models USE_OPENAI None =
       (case getOpenAIAvailableModelFromEnv t env of Some m \<Rightarrow> [m] | None \<Rightarrow> [])"
    and c4: "getAvailableModelsForAuthType t env qwen_models USE_ANTHROPIC None =
       (case getAnthropicAvailableModelFromEnv t env of Some m \<Rightarrow> [m] | None \<Rightarrow> [])"
    by (simp_all add: getAvailableModelsForAuthType_def)
  show ?thesis
    unfolding conv [symmetric]
    by (intro conjI main c1 c2 c3 c4)
qed


section \<open>Properties of the provider catalog\<close>













section \<open>Properties of the runtime model registry\<close>






lemma authType_key_inj: "authType_key a = authType_key b \<Longrightarrow> a = b"
  by (cases a; cases b) (simp_all add: authType_key_def)

lemma address_inj: "address a m = address b n \<Longrightarrow> a = b \<and> m = n"
  by (cases a; cases b) (simp_all add: address_def authType_key_def)








section \<open>Properties of the generation-config merger\<close>

lemma first_present_resolve:
  "resolve f [a, b, c, d] = first_present (f a) (f b) (f c) (f d)"
  by (simp add: first_present_def split: option.splits)

lemma first_present_mem: "first_present a b c d \<in> {a, b, c, d}"
  by (simp add: first_present_def split: option.splits)

text \<open>
  C1. For a catalog-backed selection the merged configuration is the catalog entry's
  configuration verbatim: every field the entry leaves out is undefined (all of them when
  the entry has no configuration), and the CLI, environment, settings and default layers
  have no influence on any field, the atomic ones included. For a selection that is not
  catalog-backed every scalar field is the value of the first of CLI, environment,
  settings, defaults that defines it, and each of \<open>samplingParams\<close>, \<open>customHeaders\<close> and
  \<open>extra_body\<close> is the whole object of the first layer that defines it, so always the
  object of one single layer.
\<close>

theorem generationConfig_impermeable:
  "mergeGenerationConfig True (Some g) cli env settings defaults = g
   \<and> mergeGenerationConfig True None cli env settings defaults = undefined_config
   \<and> mergeGenerationConfig True entryConfig cli env settings defaults =
       mergeGenerationConfig True entryConfig cli' env' settings' defaults'
   \<and> (let r = mergeGenerationConfig False entryConfig cli env settings defaults in
        gc_timeout r = first_present (gc_timeout cli) (gc_timeout env)
                         (gc_timeout settings) (gc_timeout defaults)
      \<and> gc_maxRetries r = first_present (gc_maxRetries cli) (gc_maxRetries env)
                         (gc_maxRetries settings) (gc_maxRetries defaults)
      \<and> gc_contextWindowSize r =
          first_present (gc_contextWindowSize cli) (gc_contextWindowSize env)
            (gc_contextWindowSize settings) (gc_contextWindowSize defaults)
      \<and> gc_schemaCompliance r =
          first_present (gc_schemaCompliance cli) (gc_schemaCompliance env)
            (gc_schemaCompliance settings) (gc_schemaCompliance defaults)
      \<and> gc_samplingParams r =
          first_present (gc_samplingParams cli) (gc_samplingParams env)
            (gc_samplingParams settings) (gc_samplingParams defaults)
      \<and> gc_customHeaders r =
          first_present (gc_customHeaders cli) (gc_customHeaders env)
            (gc_customHeaders settings) (gc_customHeaders defaults)
      \<and> gc_extra_body r =
          first_present (gc_extra_body cli) (gc_extra_body env)
            (gc_extra_body settings) (gc_extra_body defaults)
      \<and> gc_samplingParams r \<in> {gc_samplingParams cli, gc_samplingParams env,
                                 gc_samplingParams settings, gc_samplingParams defaults}
      \<and> gc_customHeaders r \<in> {gc_customHeaders cli, gc_customHeaders env,
                                gc_customHeaders settings, gc_customHeaders defaults}
      \<and> gc_extra_body r \<in> {gc_extra_body cli, gc_extra_body env,
                             gc_extra_body settings, gc_extra_body defaults})"
  by (simp add: mergeGenerationConfig_def first_present_resolve Let_def first_present_mem
        del: insert_iff resolve.simps)

lemma impermeable_example:
  "mergeGenerationConfig True (Some provider_example) undefined_config undefined_config
     settings_example undefined_config = provider_example
   \<and> gc_timeout provider_example = Some 60000
   \<and> gc_samplingParams provider_example = Some [(''temperature'', JStr ''0.2'')]
   \<and> gc_timeout (mergeGenerationConfig False None undefined_config undefined_config
        settings_example undefined_config) = Some 30000
   \<and> gc_samplingParams (mergeGenerationConfig False None undefined_config undefined_config
        settings_example undefined_config)
       = Some [(''temperature'', JStr ''0.5''), (''max_tokens'', JNum 1000)]"
  by (simp add: mergeGenerationConfig_def provider_example_def settings_example_def
      undefined_config_def)


section \<open>Properties of the managed template updater\<close>

lemma construct_Inr_iff:
  "construct acc es = Inr new \<longleftrightarrow> new = acc @ es \<and> (\<forall>e \<in> set es. well_formed_entry e)"
  by (induction es arbitrary: acc) auto

lemma construct_Inl_iff:
  "construct acc es = Inl err \<longleftrightarrow> (\<exists>e \<in> set es. \<not> well_formed_entry e)"
proof (induction es arbitrary: acc)
  case Nil
  show ?case by simp
next
  case (Cons e es)
  show ?case using Cons.IH [of "acc @ [e]"] by (cases err) auto
qed

lemma applyUpdate_Inr:
  assumes "applyUpdate cat a tpl = Inr cat'"
  shows "cat' = cat(a := replace_managed (mt_entries tpl) (cat a))"
    and "\<forall>e \<in> set (mt_entries tpl). well_formed_entry e"
  using assms by (auto simp: applyUpdate_def construct_Inr_iff split: sum.splits)

lemma replace_managed_split:
  "\<exists>pre post. replace_managed new bucket = pre @ new @ post
     \<and> pre @ post = filter (\<lambda>e. \<not> is_managed e) bucket"
proof -
  let ?P = "\<lambda>e. \<not> is_managed e"
  have t: "filter ?P (takeWhile ?P bucket) = takeWhile ?P bucket"
    by (induction bucket) auto
  have "filter ?P (takeWhile ?P bucket @ dropWhile ?P bucket) =
        takeWhile ?P bucket @ filter ?P (dropWhile ?P bucket)"
    by (simp only: filter_append t)
  then have "takeWhile ?P bucket @ filter ?P (dropWhile ?P bucket) = filter ?P bucket"
    by (simp only: takeWhile_dropWhile_id)
  then show ?thesis
    unfolding replace_managed_def by blast
qed

lemma set_replace_managed:
  "set (replace_managed new bucket) = set new \<union> {e \<in> set bucket. \<not> is_managed e}"
proof -
  obtain pre post where h: "replace_managed new bucket = pre @ new @ post"
     "pre @ post = filter (\<lambda>e. \<not> is_managed e) bucket"
    using replace_managed_split by blast
  have "set (pre @ post) = {e \<in> set bucket. \<not> is_managed e}"
    by (simp only: h(2)) auto
  then show ?thesis using h(1) by auto
qed

text \<open>
  C3. When \<open>applyUpdate\<close> succeeds, the named bucket is the new template's entries, in the
  template's order, set into the entries of the old bucket that do not match the managed
  family's signature (the credential-reference key plus the base URL of either region),
  which keep their order:
  every entry that does not match stays in the bucket, every entry of the new bucket is a
  template entry or such an unmatched old entry, and the other buckets are unchanged.
  After the update the active selection is kept when the bucket still has an entry with
  that id, and is the id of the template's first entry otherwise.
\<close>

theorem applyUpdate_preserves_manual_entries:
  assumes "applyUpdate cat a tpl = Inr cat'"
  shows "(\<exists>pre post. cat' a = pre @ mt_entries tpl @ post
            \<and> pre @ post = filter (\<lambda>e. \<not> is_managed e) (cat a))
    \<and> (\<forall>e \<in> set (cat a). \<not> is_managed e \<longrightarrow> e \<in> set (cat' a))
    \<and> (\<forall>e \<in> set (cat' a).
          e \<in> set (mt_entries tpl) \<or> (e \<in> set (cat a) \<and> \<not> is_managed e))
    \<and> (\<forall>b. b \<noteq> a \<longrightarrow> cat' b = cat b)
    \<and> (\<forall>u latest. upd_catalog u = cat \<and> upd_state u = Updating latest \<longrightarrow>
          upd_catalog (finish a tpl u) = cat'
          \<and> (Some (upd_selection u) \<in> set (map entry_id (cat' a)) \<longrightarrow>
                upd_selection (finish a tpl u) = upd_selection u)
          \<and> (Some (upd_selection u) \<notin> set (map entry_id (cat' a)) \<longrightarrow>
                (\<forall>e es. mt_entries tpl = e # es \<longrightarrow>
                   Some (upd_selection (finish a tpl u)) = entry_id e)))"
proof (intro conjI allI impI ballI)
  note c = applyUpdate_Inr [OF assms]
  show "\<exists>pre post. cat' a = pre @ mt_entries tpl @ post
            \<and> pre @ post = filter (\<lambda>e. \<not> is_managed e) (cat a)"
    using replace_managed_split [of "mt_entries tpl" "cat a"] c(1) by simp
  show "\<And>e. e \<in> set (cat a) \<Longrightarrow> \<not> is_managed e \<Longrightarrow> e \<in> set (cat' a)"
    by (simp add: c(1) set_replace_managed)
  show "\<And>e. e \<in> set (cat' a) \<Longrightarrow>
          e \<in> set (mt_entries tpl) \<or> (e \<in> set (cat a) \<and> \<not> is_managed e)"
    by (auto simp: c(1) set_replace_managed)
  show "\<And>b. b \<noteq> a \<Longrightarrow> cat' b = cat b"
    by (simp add: c(1))
  fix u :: updater and latest
  assume u: "upd_catalog u = cat \<and> upd_state u = Updating latest"
  then have f: "finish a tpl u =
      \<lparr> upd_catalog = cat',
        upd_selection = reselect (upd_selection u) (cat' a) (mt_entries tpl),
        upd_state = UpToDate (computeVersion tpl) \<rparr>"
    using assms by (simp add: finish_def)
  show "upd_catalog (finish a tpl u) = cat'" by (simp add: f)
  show "Some (upd_selection u) \<in> set (map entry_id (cat' a)) \<Longrightarrow>
          upd_selection (finish a tpl u) = upd_selection u"
    by (simp add: f reselect_def)
  fix e es
  assume n: "Some (upd_selection u) \<notin> set (map entry_id (cat' a))"
     and t: "mt_entries tpl = e # es"
  from c(2) t have "well_formed_entry e" by simp
  then obtain i where "entry_id e = Some i"
    by (auto simp: well_formed_entry_def present_def entry_id_def)
  with n t show "Some (upd_selection (finish a tpl u)) = entry_id e"
    by (simp add: f reselect_def)
qed


lemma well_formed_template_entries:
  "well_formed_entry (thinking_entry (c # i) n url cws)"
  "well_formed_entry (plain_entry (c # i) n url cws)"
  by (simp_all add: well_formed_entry_def present_def str_prop_thinking_entry
        str_prop_plain_entry CODING_PLAN_ENV_KEY_nonempty)

lemma is_managed_template_entries:
  "is_managed (thinking_entry i n CHINA_URL cws)"
  "is_managed (plain_entry i n CHINA_URL cws)"
  "is_managed (thinking_entry i n GLOBAL_URL cws)"
  "is_managed (plain_entry i n GLOBAL_URL cws)"
  by (simp_all add: is_managed_def str_prop_thinking_entry str_prop_plain_entry
        isCodingPlanConfig_CHINA isCodingPlanConfig_GLOBAL)

lemma manual_entry_not_managed: "\<not> is_managed manual_entry"
  by (simp add: is_managed_def manual_entry_def str_prop_def isCodingPlanConfig_def
        CODING_PLAN_ENV_KEY_def)

lemma applyUpdate_example:
  "applyUpdate example_catalog USE_OPENAI china_template =
     Inr (example_catalog(USE_OPENAI := generateCodingPlanTemplate CHINA @ [manual_entry]))"
proof -
  have c: "construct [] (generateCodingPlanTemplate CHINA) = Inr (generateCodingPlanTemplate CHINA)"
    by (simp add: construct_Inr_iff well_formed_template_entries)
  have r: "replace_managed new [old_managed_entry, manual_entry, other_region_entry] =
      new @ [manual_entry]"
    for new
    by (simp add: replace_managed_def old_managed_entry_def other_region_entry_def
          is_managed_template_entries manual_entry_not_managed)
  show ?thesis
    by (simp add: applyUpdate_def china_template_def c r example_catalog_def del: generateCodingPlanTemplate.simps)
qed

theorem applyUpdate_preserves_manual_entries_witness:
  "applyUpdate example_catalog USE_OPENAI china_template =
     Inr (example_catalog(USE_OPENAI := generateCodingPlanTemplate CHINA @ [manual_entry]))
   \<and> manual_entry \<in> set (example_catalog USE_OPENAI)
   \<and> \<not> is_managed manual_entry
   \<and> manual_entry \<in> set ((example_catalog(USE_OPENAI :=
         generateCodingPlanTemplate CHINA @ [manual_entry])) USE_OPENAI)
   \<and> old_managed_entry \<in> set (example_catalog USE_OPENAI)
   \<and> is_managed old_managed_entry
   \<and> old_managed_entry \<notin> set ((example_catalog(USE_OPENAI :=
         generateCodingPlanTemplate CHINA @ [manual_entry])) USE_OPENAI)
   \<and> other_region_entry \<in> set (example_catalog USE_OPENAI)
   \<and> isCodingPlanConfig (str_prop ''baseUrl'' other_region_entry)
         (str_prop ''envKey'' other_region_entry) = Some GLOBAL
   \<and> other_region_entry \<notin> set ((example_catalog(USE_OPENAI :=
         generateCodingPlanTemplate CHINA @ [manual_entry])) USE_OPENAI)
   \<and> upd_selection
         (finish USE_OPENAI china_template
            \<lparr> upd_catalog = example_catalog, upd_selection = ''qwen3-coder-old'',
              upd_state = Updating ''token'' \<rparr>) = ''qwen3.5-plus''"
proof -
  let ?cat' = "example_catalog(USE_OPENAI := generateCodingPlanTemplate CHINA @ [manual_entry])"
  let ?u = "\<lparr> upd_catalog = example_catalog, upd_selection = ''qwen3-coder-old'',
              upd_state = Updating ''token'' \<rparr>"
  note t = applyUpdate_preserves_manual_entries [OF applyUpdate_example]
  have m: "manual_entry \<in> set (example_catalog USE_OPENAI)"
    and o: "old_managed_entry \<in> set (example_catalog USE_OPENAI)"
    and g: "other_region_entry \<in> set (example_catalog USE_OPENAI)"
    by (simp_all add: example_catalog_def)
  note nm = manual_entry_not_managed
  have om: "is_managed old_managed_entry"
    by (simp add: old_managed_entry_def is_managed_template_entries)
  have gs: "isCodingPlanConfig (str_prop ''baseUrl'' other_region_entry)
         (str_prop ''envKey'' other_region_entry) = Some GLOBAL"
    by (simp add: other_region_entry_def str_prop_plain_entry isCodingPlanConfig_GLOBAL)
  then have gm: "is_managed other_region_entry"
    by (simp add: is_managed_def)
  from t m nm have kept: "manual_entry \<in> set (?cat' USE_OPENAI)" by blast
  have "old_managed_entry \<notin> set (mt_entries china_template)"
    by (simp add: china_template_def old_managed_entry_def plain_entry_def thinking_entry_def)
  with t om have gone: "old_managed_entry \<notin> set (?cat' USE_OPENAI)" by blast
  have "other_region_entry \<notin> set (mt_entries china_template)"
    by (simp add: china_template_def other_region_entry_def plain_entry_def thinking_entry_def)
  with t gm have gone': "other_region_entry \<notin> set (?cat' USE_OPENAI)" by blast
  have ns: "Some (upd_selection ?u) \<notin> set (map entry_id (?cat' USE_OPENAI))"
    by (simp add: entry_id_def str_prop_thinking_entry str_prop_plain_entry manual_entry_def)
       (simp add: str_prop_def)
  have hd: "mt_entries china_template =
      thinking_entry ''qwen3.5-plus'' ''[Bailian Coding Plan] qwen3.5-plus'' CHINA_URL 1000000
        # tl (generateCodingPlanTemplate CHINA)"
    by (simp add: china_template_def)
  from t have "\<forall>u latest. upd_catalog u = example_catalog \<and> upd_state u = Updating latest \<longrightarrow>
          (Some (upd_selection u) \<notin> set (map entry_id (?cat' USE_OPENAI)) \<longrightarrow>
                (\<forall>e es. mt_entries china_template = e # es \<longrightarrow>
                   Some (upd_selection (finish USE_OPENAI china_template u)) = entry_id e))"
    by blast
  from this [rule_format, of ?u "''token''", OF _ ns hd]
  have "Some (upd_selection (finish USE_OPENAI china_template ?u)) = Some ''qwen3.5-plus''"
    by (simp add: entry_id_def str_prop_thinking_entry)
  then have sel: "upd_selection (finish USE_OPENAI china_template ?u) = ''qwen3.5-plus''"
    by simp
  from applyUpdate_example m nm kept o om gone g gs gone' sel show ?thesis by blast
qed

lemma finish_no_partial_bucket:
  "upd_catalog (finish a tpl v) b = upd_catalog v b
   \<or> upd_catalog (finish a tpl v) b =
       replace_managed (mt_entries tpl) (upd_catalog v b)"
proof (cases "upd_state v")
  case (Updating latest)
  show ?thesis
  proof (cases "applyUpdate (upd_catalog v) a tpl")
    case (Inl err)
    with Updating show ?thesis by (simp add: finish_def)
  next
    case (Inr cat')
    from applyUpdate_Inr(1) [OF Inr] Updating Inr show ?thesis
      by (simp add: finish_def)
  qed
qed (simp_all add: finish_def)

text \<open>
  C7. When \<open>applyUpdate\<close> fails to construct the replacement bucket, accepting the update
  leaves the updater as it was: the catalog is unchanged and the state is again
  \<open>UpdateAvailable\<close> with the same token. Whatever the outcome, each bucket after the
  update is the old bucket or the completely replaced one, never a partly updated one.
\<close>

theorem applyUpdate_all_or_nothing:
  assumes "upd_state u = UpdateAvailable latest"
      and "applyUpdate (upd_catalog u) a tpl = Inl err"
  shows "finish a tpl (accept u) = u
    \<and> upd_catalog (finish a tpl (accept u)) = upd_catalog u
    \<and> upd_state (finish a tpl (accept u)) = UpdateAvailable latest
    \<and> (\<forall>v b. upd_catalog (finish a tpl v) b = upd_catalog v b
          \<or> upd_catalog (finish a tpl v) b =
              replace_managed (mt_entries tpl) (upd_catalog v b))"
proof -
  have "finish a tpl (accept u) = u"
    using assms by (cases u) (simp add: finish_def accept_def)
  with assms(1) finish_no_partial_bucket show ?thesis by simp
qed

theorem applyUpdate_all_or_nothing_witness:
  "upd_state \<lparr> upd_catalog = example_catalog, upd_selection = ''qwen3-coder-old'',
               upd_state = UpdateAvailable ''token'' \<rparr> = UpdateAvailable ''token''
   \<and> applyUpdate example_catalog USE_OPENAI malformed_template = Inl TemplateUpdateFailed
   \<and> finish USE_OPENAI malformed_template
        (accept \<lparr> upd_catalog = example_catalog, upd_selection = ''qwen3-coder-old'',
                  upd_state = UpdateAvailable ''token'' \<rparr>)
       = \<lparr> upd_catalog = example_catalog, upd_selection = ''qwen3-coder-old'',
           upd_state = UpdateAvailable ''token'' \<rparr>"
proof -
  let ?u = "\<lparr> upd_catalog = example_catalog, upd_selection = ''qwen3-coder-old'',
              upd_state = UpdateAvailable ''token'' \<rparr>"
  have s: "upd_state ?u = UpdateAvailable ''token''" by simp
  have "\<not> well_formed_entry [(''name'', JStr ''nameless''), (''envKey'', JStr CODING_PLAN_ENV_KEY)]"
    by (simp add: well_formed_entry_def present_def str_prop_def)
  then have f: "applyUpdate (upd_catalog ?u) USE_OPENAI malformed_template = Inl TemplateUpdateFailed"
    by (simp add: applyUpdate_def malformed_template_def well_formed_template_entries)
  from applyUpdate_all_or_nothing [OF s f] s f show ?thesis by simp
qed


section \<open>Properties of the serialization\<close>

text \<open>A value written as listed can be read back from its serialization: the text
  determines the value, key order included. Putting an object's keys in the order
  JavaScript enumerates them does not change its text.\<close>

declare show_nat.simps [simp del]







lemma stop_not_minus: "stop r \<Longrightarrow> r = [] \<or> hd r \<noteq> CHR ''-''"
  by (cases r) (auto simp: stop_def)


































lemma js_order_idem: "js_order (js_order ps) = js_order ps"
proof -
  let ?I = "\<lambda>p :: string \<times> 'a. is_index (fst p)"
  let ?f = "\<lambda>p :: string \<times> 'a. read_nat (fst p)"
  let ?S = "sort_key ?f (filter ?I ps)"
  have a: "filter ?I ?S = ?S"
    by (simp add: filter_sort)
  have b: "filter ?I (filter (\<lambda>p. \<not> ?I p) ps) = []"
    by (simp add: filter_empty_conv)
  have c: "filter (\<lambda>p. \<not> ?I p) ?S = []"
    by (simp add: filter_empty_conv)
  have d: "sort_key ?f ?S = ?S"
    by (rule sort_key_id_if_sorted) simp
  show ?thesis
    unfolding js_order_def [of "js_order ps"]
    unfolding js_order_def [of ps]
    by (simp only: filter_append a b c d append_Nil2 append_Nil) simp
qed

lemma stringify_js_order: "stringify (JObj (js_order ps)) = stringify (JObj ps)"
  by (simp add: js_order_idem)





section \<open>Version tokens\<close>

text \<open>The tokens of the two regional templates, computed through the serialization and
  the sixty-four rounds of each block.\<close>

lemma china_token:
  "computeCodingPlanVersion (generateCodingPlanTemplate CHINA) =
     ''4fa19d7e09ad8501d469c997ca7afc7a9262cc6160c91ad351e9f939a11f3561''"
  by code_simp

lemma global_token:
  "computeCodingPlanVersion (generateCodingPlanTemplate GLOBAL) =
     ''b7a85268fd65f03863820ee02313acc936bc213405c48fe98ea95bb5f8ea96d1''"
  by code_simp

lemma getCodingPlanConfig_fields:
  "cfg_template (getCodingPlanConfig region) = generateCodingPlanTemplate region"
  "cfg_version (getCodingPlanConfig region) =
     computeCodingPlanVersion (generateCodingPlanTemplate region)"
  "cfg_baseUrl (getCodingPlanConfig CHINA) = CHINA_URL"
  "cfg_baseUrl (getCodingPlanConfig GLOBAL) = GLOBAL_URL"
  by (simp_all add: getCodingPlanConfig_def Let_def del: generateCodingPlanTemplate.simps)

text \<open>
  C8. Every entry of the China template has the base URL
  \<open>https://coding.dashscope.aliyuncs.com/v1\<close> and every entry of the Global template the
  base URL \<open>https://coding-intl.dashscope.aliyuncs.com/v1\<close>; \<open>getCodingPlanConfig\<close> returns
  for each region that region's template, its base URL and the token
  \<open>computeCodingPlanVersion\<close> computes for the template; the tokens of the two regions
  are different.
\<close>

theorem regions_are_independent_templates:
  "(\<forall>e \<in> set (generateCodingPlanTemplate CHINA).
      str_prop ''baseUrl'' e = Some ''https://coding.dashscope.aliyuncs.com/v1'')
   \<and> (\<forall>e \<in> set (generateCodingPlanTemplate GLOBAL).
      str_prop ''baseUrl'' e = Some ''https://coding-intl.dashscope.aliyuncs.com/v1'')
   \<and> (\<forall>region.
        cfg_template (getCodingPlanConfig region) = generateCodingPlanTemplate region
        \<and> cfg_version (getCodingPlanConfig region) =
            computeCodingPlanVersion (generateCodingPlanTemplate region))
   \<and> cfg_baseUrl (getCodingPlanConfig CHINA) = ''https://coding.dashscope.aliyuncs.com/v1''
   \<and> cfg_baseUrl (getCodingPlanConfig GLOBAL) = ''https://coding-intl.dashscope.aliyuncs.com/v1''
   \<and> cfg_version (getCodingPlanConfig CHINA) \<noteq> cfg_version (getCodingPlanConfig GLOBAL)"
proof (intro conjI allI)
  show "\<forall>e \<in> set (generateCodingPlanTemplate CHINA).
      str_prop ''baseUrl'' e = Some ''https://coding.dashscope.aliyuncs.com/v1''"
    by (simp add: str_prop_thinking_entry str_prop_plain_entry) (simp add: CHINA_URL_def)
  show "\<forall>e \<in> set (generateCodingPlanTemplate GLOBAL).
      str_prop ''baseUrl'' e = Some ''https://coding-intl.dashscope.aliyuncs.com/v1''"
    by (simp add: str_prop_thinking_entry str_prop_plain_entry) (simp add: GLOBAL_URL_def)
  show "cfg_baseUrl (getCodingPlanConfig CHINA) = ''https://coding.dashscope.aliyuncs.com/v1''"
    by (simp add: getCodingPlanConfig_fields CHINA_URL_def)
  show "cfg_baseUrl (getCodingPlanConfig GLOBAL) = ''https://coding-intl.dashscope.aliyuncs.com/v1''"
    by (simp add: getCodingPlanConfig_fields GLOBAL_URL_def)
  show "cfg_version (getCodingPlanConfig CHINA) \<noteq> cfg_version (getCodingPlanConfig GLOBAL)"
    by (simp only: getCodingPlanConfig_fields china_token global_token) simp
qed (simp_all only: getCodingPlanConfig_fields)

theorem regions_are_independent_templates_witness:
  "plain_entry ''qwen3-coder-next'' ''[Bailian Coding Plan] qwen3-coder-next'' CHINA_URL 262144
     \<in> set (generateCodingPlanTemplate CHINA)
   \<and> str_prop ''baseUrl''
        (plain_entry ''qwen3-coder-next'' ''[Bailian Coding Plan] qwen3-coder-next'' CHINA_URL 262144)
       = Some ''https://coding.dashscope.aliyuncs.com/v1''
   \<and> plain_entry ''qwen3-coder-next'' ''[Bailian Coding Plan for Global/Intl] qwen3-coder-next''
        GLOBAL_URL 262144 \<in> set (generateCodingPlanTemplate GLOBAL)
   \<and> str_prop ''baseUrl''
        (plain_entry ''qwen3-coder-next'' ''[Bailian Coding Plan for Global/Intl] qwen3-coder-next''
           GLOBAL_URL 262144)
       = Some ''https://coding-intl.dashscope.aliyuncs.com/v1''"
proof -
  have c: "plain_entry ''qwen3-coder-next'' ''[Bailian Coding Plan] qwen3-coder-next'' CHINA_URL 262144
     \<in> set (generateCodingPlanTemplate CHINA)"
    by simp
  have g: "plain_entry ''qwen3-coder-next'' ''[Bailian Coding Plan for Global/Intl] qwen3-coder-next''
        GLOBAL_URL 262144 \<in> set (generateCodingPlanTemplate GLOBAL)"
    by simp
  from regions_are_independent_templates c g show ?thesis by blast
qed



end
